theory Spec2Isabelle
  imports Complex_Main
begin

section \<open>The DefiLlama client: requests, transport and response validation\<close>

text \<open>
  The client (\<^verbatim>\<open>src/defillama/client.py\<close>) turns every operation into one HTTP GET:
  it builds a URL and a dictionary of query parameters, hands both to \<^verbatim>\<open>_request\<close>
  (or \<^verbatim>\<open>_async_request\<close>), and passes the parsed JSON body to a pydantic validator
  declared in \<^verbatim>\<open>src/defillama/models.py\<close>.

  Modelling conventions.
  \<^item> A Python \<^verbatim>\<open>str\<close> is a HOL \<open>string\<close>; only \<^verbatim>\<open>str.lower\<close> looks inside the
    characters, and it is modelled on the ASCII letters.
  \<^item> A Python \<^verbatim>\<open>int\<close> is an \<open>int\<close>. A Python \<^verbatim>\<open>float\<close> is only ever carried from the
    response to the caller, never computed on; it is modelled by the real number it denotes.
  \<^item> A Python \<^verbatim>\<open>dict\<close> is an association list in insertion order (looked up with
    \<open>map_of\<close>); the dictionaries that the JSON parser and the client build have distinct keys.
  \<^item> A parameter with a default value is an \<open>option\<close> argument: \<open>None\<close> is the call that
    does not supply it.
  \<^item> An exception is a value: every operation returns \<open>exception + result\<close>, with \<open>Inl\<close>
    the exception that reaches the caller.
  \<^item> The network and the remote service are a function from the request to what
    \<^verbatim>\<open>client.request\<close> does with it: raise, or return a response.
\<close>

subsection \<open>JSON values\<close>

text \<open>What \<^verbatim>\<open>res.json()\<close> returns: \<^verbatim>\<open>None\<close>, \<^verbatim>\<open>bool\<close>, \<^verbatim>\<open>int\<close>, \<^verbatim>\<open>float\<close>,
  \<^verbatim>\<open>str\<close>, \<^verbatim>\<open>list\<close> or \<^verbatim>\<open>dict\<close> with string keys.\<close>

datatype json =
    JNull
  | JBool bool
  | JInt int
  | JFloat real
  | JStr string
  | JList "json list"
  | JDict "(string \<times> json) list"

subsection \<open>Python string helpers\<close>

text \<open>\<^verbatim>\<open>sep.join(xs)\<close>.\<close>

fun join :: "string \<Rightarrow> string list \<Rightarrow> string" where
  "join sep [] = []"
| "join sep [x] = x"
| "join sep (x # y # ys) = x @ sep @ join sep (y # ys)"

text \<open>\<^verbatim>\<open>s.lower()\<close> on ASCII text: the letters \<^verbatim>\<open>A\<close> to \<^verbatim>\<open>Z\<close> move to \<^verbatim>\<open>a\<close> to \<^verbatim>\<open>z\<close>,
  every other character stays.\<close>

definition lower_char :: "char \<Rightarrow> char" where
  "lower_char c =
     (let n = (of_char c :: nat) in if 65 \<le> n \<and> n \<le> 90 then char_of (n + 32) else c)"

definition lower :: "string \<Rightarrow> string" where
  "lower s = map lower_char s"

text \<open>\<^verbatim>\<open>str(n)\<close> for an integer, as an f-string prints it: decimal digits, a leading
  minus sign for a negative number.\<close>

definition digit_char :: "nat \<Rightarrow> char" where
  "digit_char d = char_of (48 + d)"

function nat_str :: "nat \<Rightarrow> string" where
  "nat_str n = (if n < 10 then [digit_char n] else nat_str (n div 10) @ [digit_char (n mod 10)])"
  by pat_completeness auto
termination
  by (relation "measure (\<lambda>n. n)") auto

definition str_of_int :: "int \<Rightarrow> string" where
  "str_of_int i = (if i < 0 then CHR ''-'' # nat_str (nat (- i)) else nat_str (nat i))"

text \<open>The value of a parameter declared with a default.\<close>

definition default_arg :: "'a \<Rightarrow> 'a option \<Rightarrow> 'a" where
  "default_arg d x = (case x of None \<Rightarrow> d | Some v \<Rightarrow> v)"

subsection \<open>Requests, responses and the transport\<close>

text \<open>A value of the \<^verbatim>\<open>params\<close> dictionary, before the HTTP library serialises it.
  \<open>PDictStr d\<close> stands for the string \<^verbatim>\<open>str(d)\<close> of a dictionary \<open>d\<close>.\<close>

datatype param =
    PStr string
  | PInt int
  | PBool bool
  | PDictStr "(string \<times> int list) list"

type_synonym params = "(string \<times> param) list"

text \<open>\<^verbatim>\<open>d[k] = v\<close>: replaces the value of an existing key, appends a new key.\<close>

fun dict_set :: "('k \<times> 'v) list \<Rightarrow> 'k \<Rightarrow> 'v \<Rightarrow> ('k \<times> 'v) list" where
  "dict_set [] k v = [(k, v)]"
| "dict_set ((k', v') # d) k v = (if k' = k then (k, v) # d else (k', v') # dict_set d k v)"

text \<open>The arguments of \<^verbatim>\<open>_request\<close>: \<open>req_params = None\<close> is the default
  \<^verbatim>\<open>params=None\<close>.\<close>

record http_request =
  req_method :: string
  req_url :: string
  req_params :: "params option"

text \<open>A response: its status code, its raw body, and what \<^verbatim>\<open>res.json()\<close> makes of the
  body (\<open>None\<close> when the body is not JSON and \<^verbatim>\<open>res.json()\<close> raises).\<close>

record http_response =
  status_code :: int
  body_text :: string
  body_json :: "json option"

text \<open>What \<^verbatim>\<open>client.request\<close> does: it raises one of the HTTP library's transport
  exceptions (connection, timeout, DNS; named by its message), or returns a response.
  It never raises the status error itself.\<close>

datatype outcome =
    Raises string
  | Returns http_response

type_synonym transport = "http_request \<Rightarrow> outcome"

text \<open>The behaviour of the two libraries that the client does not decide: the message of
  the HTTP library's status error, and the validation library's reading of a string as a
  number or a truth value in its default (lax) mode.\<close>

record library =
  status_message :: "http_request \<Rightarrow> http_response \<Rightarrow> string"
  str_as_int :: "string \<Rightarrow> int option"
  str_as_float :: "string \<Rightarrow> real option"
  str_as_bool :: "string \<Rightarrow> bool option"

subsection \<open>Exceptions\<close>

datatype loc_item = Key string | Idx nat

text \<open>One entry of a validation error: where the offending value is (the keys and
  indices that lead to it), and which check it failed.\<close>

type_synonym line_error = "loc_item list \<times> string"

text \<open>\<^verbatim>\<open>httpx.HTTPStatusError\<close>: its message and the response it was raised for.\<close>

datatype http_status_error = HTTPStatusError string http_response

text \<open>The exceptions that reach the caller.
  \<^item> \<open>TransportError m\<close>: an exception of \<^verbatim>\<open>client.request\<close>, passed on unchanged.
  \<^item> \<open>ValueError m c\<close>: \<^verbatim>\<open>raise ValueError(m) from c\<close>, the message and the chained
    cause.
  \<^item> \<open>JSONDecodeError\<close>: raised by \<^verbatim>\<open>res.json()\<close> on a body that is not JSON.
  \<^item> \<open>ValidationError es\<close>: raised by the pydantic validator.\<close>

datatype exception =
    TransportError string
  | ValueError string http_status_error
  | JSONDecodeError
  | ValidationError "line_error list"

text \<open>\<^verbatim>\<open>res.raise_for_status()\<close>: nothing happens for a status from 200 to 299, the status
  error is raised for any other. The error holds the response, and through it the status
  code and the body.\<close>

definition is_success :: "http_response \<Rightarrow> bool" where
  "is_success r = (200 \<le> status_code r \<and> status_code r \<le> 299)"

definition raise_for_status ::
  "library \<Rightarrow> http_request \<Rightarrow> http_response \<Rightarrow> http_status_error option" where
  "raise_for_status L rq r =
     (if is_success r then None else Some (HTTPStatusError (status_message L rq r) r))"

text \<open>\<^verbatim>\<open>_request\<close> (client.py, lines 33 to 39). The f-string \<^verbatim>\<open>f"HTTP error: {e}"\<close> prints
  the message of the status error.\<close>

definition request :: "library \<Rightarrow> transport \<Rightarrow> http_request \<Rightarrow> exception + json" where
  "request L T rq =
     (case T rq of
        Raises m \<Rightarrow> Inl (TransportError m)
      | Returns res \<Rightarrow>
          (case raise_for_status L rq res of
             Some (HTTPStatusError m r) \<Rightarrow>
               Inl (ValueError (''HTTP error: '' @ m) (HTTPStatusError m r))
           | None \<Rightarrow>
               (case body_json res of
                  None \<Rightarrow> Inl JSONDecodeError
                | Some j \<Rightarrow> Inr j)))"

text \<open>\<^verbatim>\<open>_async_request\<close> (client.py, lines 41 to 49): the same steps on the asynchronous
  client.\<close>

definition async_request :: "library \<Rightarrow> transport \<Rightarrow> http_request \<Rightarrow> exception + json" where
  "async_request L T rq =
     (case T rq of
        Raises m \<Rightarrow> Inl (TransportError m)
      | Returns res \<Rightarrow>
          (case raise_for_status L rq res of
             Some (HTTPStatusError m r) \<Rightarrow>
               Inl (ValueError (''HTTP error: '' @ m) (HTTPStatusError m r))
           | None \<Rightarrow>
               (case body_json res of
                  None \<Rightarrow> Inl JSONDecodeError
                | Some j \<Rightarrow> Inr j)))"

text \<open>The four base URLs set in \<^verbatim>\<open>__init__\<close>.\<close>

definition BASE_URL :: string where "BASE_URL = ''https://api.llama.fi''"
definition COINS_URL :: string where "COINS_URL = ''https://coins.llama.fi''"
definition STABLECOINS_URL :: string where "STABLECOINS_URL = ''https://stablecoins.llama.fi''"
definition YIELDS_URL :: string where "YIELDS_URL = ''https://yields.llama.fi''"

subsection \<open>Building the requests\<close>

text \<open>\<^verbatim>\<open>if x: params[k] = x\<close> for an optional integer and an optional string. The test is
  Python's truthiness: \<^verbatim>\<open>None\<close>, \<^verbatim>\<open>0\<close> and the empty string are false.\<close>

definition set_if_int :: "params \<Rightarrow> string \<Rightarrow> int option \<Rightarrow> params" where
  "set_if_int d k x =
     (case x of None \<Rightarrow> d | Some n \<Rightarrow> if n = 0 then d else dict_set d k (PInt n))"

definition set_if_str :: "params \<Rightarrow> string \<Rightarrow> string option \<Rightarrow> params" where
  "set_if_str d k x =
     (case x of None \<Rightarrow> d | Some s \<Rightarrow> if s = [] then d else dict_set d k (PStr s))"

text \<open>\<^verbatim>\<open>endpoint = e; if chain: endpoint = f"{p}/{chain}"\<close>.\<close>

definition endpoint_if :: "string \<Rightarrow> string \<Rightarrow> string option \<Rightarrow> string" where
  "endpoint_if e p chain =
     (case chain of None \<Rightarrow> e | Some c \<Rightarrow> if c = [] then e else p @ ''/'' @ c)"

text \<open>Each definition below is the request that the operation of the same name passes
  to \<^verbatim>\<open>_request\<close>; the one whose name has \<open>_async\<close> is what the asynchronous form
  passes to \<^verbatim>\<open>_async_request\<close>. The two forms of \<^verbatim>\<open>get_protocol\<close>,
  \<^verbatim>\<open>get_protocol_tvl\<close> and \<^verbatim>\<open>get_pools\<close> write the same URL and no parameters; one
  definition serves both.\<close>

definition get_protocol_request :: "string \<Rightarrow> http_request" where
  "get_protocol_request protocol_slug =
     \<lparr>req_method = ''GET'', req_url = BASE_URL @ ''/protocol/'' @ protocol_slug,
      req_params = None\<rparr>"

definition get_protocol_tvl_request :: "string \<Rightarrow> http_request" where
  "get_protocol_tvl_request protocol_slug =
     \<lparr>req_method = ''GET'', req_url = BASE_URL @ ''/tvl/'' @ protocol_slug,
      req_params = None\<rparr>"

definition get_current_prices_request :: "string list \<Rightarrow> string option \<Rightarrow> http_request" where
  "get_current_prices_request coins search_width =
     (let coins_str = join '','' coins;
          params = [(''searchWidth'', PStr (default_arg ''4h'' search_width))]
      in \<lparr>req_method = ''GET'', req_url = COINS_URL @ ''/prices/current/'' @ coins_str,
          req_params = Some params\<rparr>)"

definition get_current_prices_async_request ::
  "string list \<Rightarrow> string option \<Rightarrow> http_request" where
  "get_current_prices_async_request coins search_width =
     (let coins_str = join '','' coins;
          params = [(''searchWidth'', PStr (default_arg ''4h'' search_width))]
      in \<lparr>req_method = ''GET'', req_url = COINS_URL @ ''/prices/current/'' @ coins_str,
          req_params = Some params\<rparr>)"

definition get_historical_prices_request ::
  "int \<Rightarrow> string list \<Rightarrow> string option \<Rightarrow> http_request" where
  "get_historical_prices_request timestamp coins search_width =
     (let coins_str = join '','' coins;
          params = [(''searchWidth'', PStr (default_arg ''4h'' search_width))]
      in \<lparr>req_method = ''GET'',
          req_url = COINS_URL @ ''/prices/historical/'' @ str_of_int timestamp @ ''/'' @ coins_str,
          req_params = Some params\<rparr>)"

definition get_historical_prices_async_request ::
  "int \<Rightarrow> string list \<Rightarrow> string option \<Rightarrow> http_request" where
  "get_historical_prices_async_request timestamp coins search_width =
     (let coins_str = join '','' coins;
          params = [(''searchWidth'', PStr (default_arg ''4h'' search_width))]
      in \<lparr>req_method = ''GET'',
          req_url = COINS_URL @ ''/prices/historical/'' @ str_of_int timestamp @ ''/'' @ coins_str,
          req_params = Some params\<rparr>)"

definition get_batch_historical_prices_request ::
  "(string \<times> int list) list \<Rightarrow> string option \<Rightarrow> http_request" where
  "get_batch_historical_prices_request coins search_width =
     (let params = [(''coins'', PDictStr coins)];
          params = set_if_str params ''searchWidth'' search_width
      in \<lparr>req_method = ''GET'', req_url = COINS_URL @ ''/batchHistorical'',
          req_params = Some params\<rparr>)"

definition get_batch_historical_prices_async_request ::
  "(string \<times> int list) list \<Rightarrow> string option \<Rightarrow> http_request" where
  "get_batch_historical_prices_async_request coins search_width =
     (let params = [(''coins'', PDictStr coins)];
          params = set_if_str params ''searchWidth'' search_width
      in \<lparr>req_method = ''GET'', req_url = COINS_URL @ ''/batchHistorical'',
          req_params = Some params\<rparr>)"

definition get_price_chart_request ::
  "string list \<Rightarrow> int option \<Rightarrow> int option \<Rightarrow> int option \<Rightarrow> string option \<Rightarrow> string option
     \<Rightarrow> http_request" where
  "get_price_chart_request coins start end span' period search_width =
     (let coins_str = join '','' coins;
          params = [];
          params = set_if_int params ''start'' start;
          params = set_if_int params ''end'' end;
          params = set_if_int params ''span'' span';
          params = set_if_str params ''period'' period;
          params = set_if_str params ''searchWidth'' search_width
      in \<lparr>req_method = ''GET'', req_url = COINS_URL @ ''/chart/'' @ coins_str,
          req_params = Some params\<rparr>)"

definition get_price_chart_async_request ::
  "string list \<Rightarrow> int option \<Rightarrow> int option \<Rightarrow> int option \<Rightarrow> string option \<Rightarrow> string option
     \<Rightarrow> http_request" where
  "get_price_chart_async_request coins start end span' period search_width =
     (let coins_str = join '','' coins;
          params = [];
          params = set_if_int params ''start'' start;
          params = set_if_int params ''end'' end;
          params = set_if_int params ''span'' span';
          params = set_if_str params ''period'' period;
          params = set_if_str params ''searchWidth'' search_width
      in \<lparr>req_method = ''GET'', req_url = COINS_URL @ ''/chart/'' @ coins_str,
          req_params = Some params\<rparr>)"

definition get_price_percentage_change_request ::
  "string list \<Rightarrow> int option \<Rightarrow> bool option \<Rightarrow> string option \<Rightarrow> http_request" where
  "get_price_percentage_change_request coins timestamp look_forward period =
     (let coins_str = join '','' coins;
          params = [(''lookForward'', PBool (default_arg False look_forward)),
                    (''period'', PStr (default_arg ''24h'' period))];
          params = set_if_int params ''timestamp'' timestamp
      in \<lparr>req_method = ''GET'', req_url = COINS_URL @ ''/percentage/'' @ coins_str,
          req_params = Some params\<rparr>)"

definition get_price_percentage_change_async_request ::
  "string list \<Rightarrow> int option \<Rightarrow> bool option \<Rightarrow> string option \<Rightarrow> http_request" where
  "get_price_percentage_change_async_request coins timestamp look_forward period =
     (let coins_str = join '','' coins;
          params = [(''lookForward'', PBool (default_arg False look_forward)),
                    (''period'', PStr (default_arg ''24h'' period))];
          params = set_if_int params ''timestamp'' timestamp
      in \<lparr>req_method = ''GET'', req_url = COINS_URL @ ''/percentage/'' @ coins_str,
          req_params = Some params\<rparr>)"

definition get_first_prices_request :: "string list \<Rightarrow> http_request" where
  "get_first_prices_request coins =
     (let coins_str = join '','' coins
      in \<lparr>req_method = ''GET'', req_url = COINS_URL @ ''/prices/first/'' @ coins_str,
          req_params = None\<rparr>)"

definition get_first_prices_async_request :: "string list \<Rightarrow> http_request" where
  "get_first_prices_async_request coins =
     (let coins_str = join '','' coins
      in \<lparr>req_method = ''GET'', req_url = COINS_URL @ ''/prices/first/'' @ coins_str,
          req_params = None\<rparr>)"

text \<open>\<^verbatim>\<open>get_block\<close> (line 557) writes \<^verbatim>\<open>chain.lower()\<close> into the path;
  \<^verbatim>\<open>get_block_async\<close> (line 579) writes \<^verbatim>\<open>chain\<close>.\<close>

definition get_block_request :: "string \<Rightarrow> int \<Rightarrow> http_request" where
  "get_block_request chain timestamp =
     \<lparr>req_method = ''GET'',
      req_url = COINS_URL @ ''/block/'' @ lower chain @ ''/'' @ str_of_int timestamp,
      req_params = None\<rparr>"

definition get_block_async_request :: "string \<Rightarrow> int \<Rightarrow> http_request" where
  "get_block_async_request chain timestamp =
     \<lparr>req_method = ''GET'',
      req_url = COINS_URL @ ''/block/'' @ chain @ ''/'' @ str_of_int timestamp,
      req_params = None\<rparr>"

definition get_stablecoins_request :: "bool option \<Rightarrow> http_request" where
  "get_stablecoins_request include_prices =
     (let params = [(''includePrices'', PBool (default_arg True include_prices))]
      in \<lparr>req_method = ''GET'', req_url = STABLECOINS_URL @ ''/stablecoins'',
          req_params = Some params\<rparr>)"

definition get_stablecoins_async_request :: "bool option \<Rightarrow> http_request" where
  "get_stablecoins_async_request include_prices =
     (let params = [(''includePrices'', PBool (default_arg True include_prices))]
      in \<lparr>req_method = ''GET'', req_url = STABLECOINS_URL @ ''/stablecoins'',
          req_params = Some params\<rparr>)"

definition get_stablecoin_charts_request :: "string option \<Rightarrow> int option \<Rightarrow> http_request" where
  "get_stablecoin_charts_request chain stablecoin =
     (let endpoint = endpoint_if ''/stablecoincharts/all'' ''/stablecoincharts'' chain;
          params = [];
          params = set_if_int params ''stablecoin'' stablecoin
      in \<lparr>req_method = ''GET'', req_url = STABLECOINS_URL @ endpoint,
          req_params = Some params\<rparr>)"

definition get_stablecoin_charts_async_request ::
  "string option \<Rightarrow> int option \<Rightarrow> http_request" where
  "get_stablecoin_charts_async_request chain stablecoin =
     (let endpoint = endpoint_if ''/stablecoincharts/all'' ''/stablecoincharts'' chain;
          params = [];
          params = set_if_int params ''stablecoin'' stablecoin
      in \<lparr>req_method = ''GET'', req_url = STABLECOINS_URL @ endpoint,
          req_params = Some params\<rparr>)"

definition get_pools_request :: http_request where
  "get_pools_request =
     \<lparr>req_method = ''GET'', req_url = YIELDS_URL @ ''/pools'', req_params = None\<rparr>"

text \<open>The volume and fee operations (lines 830 to 1187). Their query parameters all have
  a default other than \<^verbatim>\<open>None\<close>; the chain goes into the path.\<close>

definition get_dexs_request ::
  "string option \<Rightarrow> bool option \<Rightarrow> bool option \<Rightarrow> http_request" where
  "get_dexs_request chain exclude_total_data_chart exclude_total_data_chart_breakdown =
     (let endpoint = endpoint_if ''/overview/dexs'' ''/overview/dexs'' chain;
          params = [(''excludeTotalDataChart'', PBool (default_arg True exclude_total_data_chart)),
                    (''excludeTotalDataChartBreakdown'',
                       PBool (default_arg True exclude_total_data_chart_breakdown))]
      in \<lparr>req_method = ''GET'', req_url = BASE_URL @ endpoint, req_params = Some params\<rparr>)"

definition get_dexs_async_request ::
  "string option \<Rightarrow> bool option \<Rightarrow> bool option \<Rightarrow> http_request" where
  "get_dexs_async_request chain exclude_total_data_chart exclude_total_data_chart_breakdown =
     (let endpoint = endpoint_if ''/overview/dexs'' ''/overview/dexs'' chain;
          params = [(''excludeTotalDataChart'', PBool (default_arg True exclude_total_data_chart)),
                    (''excludeTotalDataChartBreakdown'',
                       PBool (default_arg True exclude_total_data_chart_breakdown))]
      in \<lparr>req_method = ''GET'', req_url = BASE_URL @ endpoint, req_params = Some params\<rparr>)"

definition get_dex_summary_request ::
  "string \<Rightarrow> bool option \<Rightarrow> bool option \<Rightarrow> http_request" where
  "get_dex_summary_request protocol_slug exclude_total_data_chart
       exclude_total_data_chart_breakdown =
     (let params = [(''excludeTotalDataChart'', PBool (default_arg True exclude_total_data_chart)),
                    (''excludeTotalDataChartBreakdown'',
                       PBool (default_arg True exclude_total_data_chart_breakdown))]
      in \<lparr>req_method = ''GET'', req_url = BASE_URL @ ''/summary/dexs/'' @ protocol_slug,
          req_params = Some params\<rparr>)"

definition get_dex_summary_async_request ::
  "string \<Rightarrow> bool option \<Rightarrow> bool option \<Rightarrow> http_request" where
  "get_dex_summary_async_request protocol_slug exclude_total_data_chart
       exclude_total_data_chart_breakdown =
     (let params = [(''excludeTotalDataChart'', PBool (default_arg True exclude_total_data_chart)),
                    (''excludeTotalDataChartBreakdown'',
                       PBool (default_arg True exclude_total_data_chart_breakdown))]
      in \<lparr>req_method = ''GET'', req_url = BASE_URL @ ''/summary/dexs/'' @ protocol_slug,
          req_params = Some params\<rparr>)"

definition get_options_dexs_request ::
  "string option \<Rightarrow> bool option \<Rightarrow> bool option \<Rightarrow> string option \<Rightarrow> http_request" where
  "get_options_dexs_request chain exclude_total_data_chart exclude_total_data_chart_breakdown data_type =
     (let endpoint = endpoint_if ''/overview/options'' ''/overview/options'' chain;
          params = [(''excludeTotalDataChart'', PBool (default_arg True exclude_total_data_chart)),
                    (''excludeTotalDataChartBreakdown'',
                       PBool (default_arg True exclude_total_data_chart_breakdown)),
                    (''dataType'', PStr (default_arg ''dailyNotionalVolume'' data_type))]
      in \<lparr>req_method = ''GET'', req_url = BASE_URL @ endpoint, req_params = Some params\<rparr>)"

definition get_options_dexs_async_request ::
  "string option \<Rightarrow> bool option \<Rightarrow> bool option \<Rightarrow> string option \<Rightarrow> http_request" where
  "get_options_dexs_async_request chain exclude_total_data_chart exclude_total_data_chart_breakdown data_type =
     (let endpoint = endpoint_if ''/overview/options'' ''/overview/options'' chain;
          params = [(''excludeTotalDataChart'', PBool (default_arg True exclude_total_data_chart)),
                    (''excludeTotalDataChartBreakdown'',
                       PBool (default_arg True exclude_total_data_chart_breakdown)),
                    (''dataType'', PStr (default_arg ''dailyNotionalVolume'' data_type))]
      in \<lparr>req_method = ''GET'', req_url = BASE_URL @ endpoint, req_params = Some params\<rparr>)"

definition get_options_dex_summary_request :: "string \<Rightarrow> string option \<Rightarrow> http_request" where
  "get_options_dex_summary_request protocol_slug data_type =
     (let params = [(''dataType'', PStr (default_arg ''dailyNotionalVolume'' data_type))]
      in \<lparr>req_method = ''GET'', req_url = BASE_URL @ ''/summary/options/'' @ protocol_slug,
          req_params = Some params\<rparr>)"

definition get_options_dex_summary_async_request :: "string \<Rightarrow> string option \<Rightarrow> http_request" where
  "get_options_dex_summary_async_request protocol_slug data_type =
     (let params = [(''dataType'', PStr (default_arg ''dailyNotionalVolume'' data_type))]
      in \<lparr>req_method = ''GET'', req_url = BASE_URL @ ''/summary/options/'' @ protocol_slug,
          req_params = Some params\<rparr>)"

definition get_fees_request ::
  "string option \<Rightarrow> bool option \<Rightarrow> bool option \<Rightarrow> string option \<Rightarrow> http_request" where
  "get_fees_request chain exclude_total_data_chart exclude_total_data_chart_breakdown data_type =
     (let endpoint = endpoint_if ''/overview/fees'' ''/overview/fees'' chain;
          params = [(''excludeTotalDataChart'', PBool (default_arg True exclude_total_data_chart)),
                    (''excludeTotalDataChartBreakdown'',
                       PBool (default_arg True exclude_total_data_chart_breakdown)),
                    (''dataType'', PStr (default_arg ''dailyFees'' data_type))]
      in \<lparr>req_method = ''GET'', req_url = BASE_URL @ endpoint, req_params = Some params\<rparr>)"

definition get_fees_async_request ::
  "string option \<Rightarrow> bool option \<Rightarrow> bool option \<Rightarrow> string option \<Rightarrow> http_request" where
  "get_fees_async_request chain exclude_total_data_chart exclude_total_data_chart_breakdown data_type =
     (let endpoint = endpoint_if ''/overview/fees'' ''/overview/fees'' chain;
          params = [(''excludeTotalDataChart'', PBool (default_arg True exclude_total_data_chart)),
                    (''excludeTotalDataChartBreakdown'',
                       PBool (default_arg True exclude_total_data_chart_breakdown)),
                    (''dataType'', PStr (default_arg ''dailyFees'' data_type))]
      in \<lparr>req_method = ''GET'', req_url = BASE_URL @ endpoint, req_params = Some params\<rparr>)"

definition get_fee_summary_request :: "string \<Rightarrow> string option \<Rightarrow> http_request" where
  "get_fee_summary_request protocol_slug data_type =
     (let params = [(''dataType'', PStr (default_arg ''dailyFees'' data_type))]
      in \<lparr>req_method = ''GET'', req_url = BASE_URL @ ''/summary/fees/'' @ protocol_slug,
          req_params = Some params\<rparr>)"

definition get_fee_summary_async_request :: "string \<Rightarrow> string option \<Rightarrow> http_request" where
  "get_fee_summary_async_request protocol_slug data_type =
     (let params = [(''dataType'', PStr (default_arg ''dailyFees'' data_type))]
      in \<lparr>req_method = ''GET'', req_url = BASE_URL @ ''/summary/fees/'' @ protocol_slug,
          req_params = Some params\<rparr>)"

subsection \<open>The validation layer\<close>

text \<open>
  \<^verbatim>\<open>models.py\<close> declares pydantic models; the library derives the validator of a model
  from the declared field types. The validators below follow the library's default (lax)
  mode on the values a JSON parser produces. A validator returns the validated value or
  the list of error entries; the entries of all fields and all items are collected.
\<close>

type_synonym 'a validated = "line_error list + 'a"

text \<open>Two validations side by side: both values, or the errors of both.\<close>

definition both :: "'a validated \<Rightarrow> 'b validated \<Rightarrow> ('a \<times> 'b) validated" where
  "both a b =
     (case a of
        Inl e1 \<Rightarrow> (case b of Inl e2 \<Rightarrow> Inl (e1 @ e2) | Inr y \<Rightarrow> Inl e1)
      | Inr x \<Rightarrow> (case b of Inl e2 \<Rightarrow> Inl e2 | Inr y \<Rightarrow> Inr (x, y)))"

text \<open>The errors found below a key or an index carry it in front of their location.\<close>

definition at_loc :: "loc_item \<Rightarrow> 'a validated \<Rightarrow> 'a validated" where
  "at_loc i r = (case r of Inl es \<Rightarrow> Inl (map (\<lambda>(loc, e). (i # loc, e)) es) | Inr v \<Rightarrow> Inr v)"

text \<open>\<^verbatim>\<open>str\<close>: a string only.\<close>

definition v_str :: "json \<Rightarrow> string validated" where
  "v_str j = (case j of JStr s \<Rightarrow> Inr s | _ \<Rightarrow> Inl [([], ''string_type'')])"

text \<open>\<^verbatim>\<open>int\<close>: an integer; a truth value as 1 or 0; a float without fractional part; a
  string that reads as an integer.\<close>

definition v_int :: "library \<Rightarrow> json \<Rightarrow> int validated" where
  "v_int L j =
     (case j of
        JInt n \<Rightarrow> Inr n
      | JBool b \<Rightarrow> Inr (if b then 1 else 0)
      | JFloat x \<Rightarrow> if x = of_int \<lfloor>x\<rfloor> then Inr \<lfloor>x\<rfloor> else Inl [([], ''int_from_float'')]
      | JStr s \<Rightarrow> (case str_as_int L s of Some n \<Rightarrow> Inr n | None \<Rightarrow> Inl [([], ''int_parsing'')])
      | _ \<Rightarrow> Inl [([], ''int_type'')])"

text \<open>\<^verbatim>\<open>float\<close>: a float; an integer, as the float of the same value (the rounding
  of an integer beyond the precision of a float is outside the model); a truth value as
  1.0 or 0.0; a string that reads as a float.\<close>

definition v_float :: "library \<Rightarrow> json \<Rightarrow> real validated" where
  "v_float L j =
     (case j of
        JFloat x \<Rightarrow> Inr x
      | JInt n \<Rightarrow> Inr (of_int n)
      | JBool b \<Rightarrow> Inr (if b then 1 else 0)
      | JStr s \<Rightarrow>
          (case str_as_float L s of Some x \<Rightarrow> Inr x | None \<Rightarrow> Inl [([], ''float_parsing'')])
      | _ \<Rightarrow> Inl [([], ''float_type'')])"

text \<open>\<^verbatim>\<open>bool\<close>: a truth value; the numbers 0 and 1; a string that reads as a truth
  value.\<close>

definition v_bool :: "library \<Rightarrow> json \<Rightarrow> bool validated" where
  "v_bool L j =
     (case j of
        JBool b \<Rightarrow> Inr b
      | JInt n \<Rightarrow>
          if n = 0 then Inr False else if n = 1 then Inr True else Inl [([], ''bool_parsing'')]
      | JFloat x \<Rightarrow>
          if x = 0 then Inr False else if x = 1 then Inr True else Inl [([], ''bool_parsing'')]
      | JStr s \<Rightarrow>
          (case str_as_bool L s of Some b \<Rightarrow> Inr b | None \<Rightarrow> Inl [([], ''bool_parsing'')])
      | _ \<Rightarrow> Inl [([], ''bool_type'')])"

text \<open>\<^verbatim>\<open>Any\<close>.\<close>

definition v_any :: "json \<Rightarrow> json validated" where
  "v_any j = Inr j"

text \<open>\<^verbatim>\<open>Optional[X]\<close>: \<^verbatim>\<open>None\<close>, or an \<^verbatim>\<open>X\<close>.\<close>

definition v_optional :: "(json \<Rightarrow> 'a validated) \<Rightarrow> json \<Rightarrow> 'a option validated" where
  "v_optional f j =
     (case j of
        JNull \<Rightarrow> Inr None
      | _ \<Rightarrow> (case f j of Inl es \<Rightarrow> Inl es | Inr v \<Rightarrow> Inr (Some v)))"

text \<open>\<^verbatim>\<open>List[X]\<close>: a list, every item an \<^verbatim>\<open>X\<close>, in the order of the input.\<close>

fun v_items :: "(json \<Rightarrow> 'a validated) \<Rightarrow> nat \<Rightarrow> json list \<Rightarrow> 'a list validated" where
  "v_items f i [] = Inr []"
| "v_items f i (x # xs) =
     (case both (at_loc (Idx i) (f x)) (v_items f (Suc i) xs) of
        Inl es \<Rightarrow> Inl es
      | Inr (v, vs) \<Rightarrow> Inr (v # vs))"

definition v_list :: "(json \<Rightarrow> 'a validated) \<Rightarrow> json \<Rightarrow> 'a list validated" where
  "v_list f j = (case j of JList xs \<Rightarrow> v_items f 0 xs | _ \<Rightarrow> Inl [([], ''list_type'')])"

text \<open>\<^verbatim>\<open>Dict[str, X]\<close>: a dictionary, every value an \<^verbatim>\<open>X\<close>, under the key of the
  input.\<close>

fun v_entries ::
  "(json \<Rightarrow> 'a validated) \<Rightarrow> (string \<times> json) list \<Rightarrow> (string \<times> 'a) list validated" where
  "v_entries f [] = Inr []"
| "v_entries f ((k, x) # kvs) =
     (case both (at_loc (Key k) (f x)) (v_entries f kvs) of
        Inl es \<Rightarrow> Inl es
      | Inr (v, vs) \<Rightarrow> Inr ((k, v) # vs))"

definition v_dict ::
  "(json \<Rightarrow> 'a validated) \<Rightarrow> json \<Rightarrow> (string \<times> 'a) list validated" where
  "v_dict f j = (case j of JDict kvs \<Rightarrow> v_entries f kvs | _ \<Rightarrow> Inl [([], ''dict_type'')])"

text \<open>\<^verbatim>\<open>Union[Dict[str, float], int]\<close>. No input is both a dictionary and an integer,
  so the member that accepts the input is the same whichever is tried first; when neither
  accepts it, the errors of both are reported.\<close>

datatype dict_or_int =
    DictOf "(string \<times> real) list"
  | IntOf int

definition v_dict_or_int :: "library \<Rightarrow> json \<Rightarrow> dict_or_int validated" where
  "v_dict_or_int L j =
     (case v_dict (v_float L) j of
        Inr d \<Rightarrow> Inr (DictOf d)
      | Inl e1 \<Rightarrow>
          (case v_int L j of
             Inr n \<Rightarrow> Inr (IntOf n)
           | Inl e2 \<Rightarrow> Inl (e1 @ e2)))"

text \<open>A field of a model without a default: the key must be there.\<close>

definition required ::
  "(string \<times> json) list \<Rightarrow> string \<Rightarrow> (json \<Rightarrow> 'a validated) \<Rightarrow> 'a validated" where
  "required d k f =
     (case map_of d k of None \<Rightarrow> Inl [([Key k], ''missing'')] | Some v \<Rightarrow> at_loc (Key k) (f v))"

text \<open>A field declared \<^verbatim>\<open>Optional[X] = None\<close>: \<^verbatim>\<open>None\<close> when the key is missing.\<close>

definition optional ::
  "(string \<times> json) list \<Rightarrow> string \<Rightarrow> (json \<Rightarrow> 'a validated) \<Rightarrow> 'a option validated" where
  "optional d k f =
     (case map_of d k of None \<Rightarrow> Inr None | Some v \<Rightarrow> at_loc (Key k) (v_optional f v))"

text \<open>The validator raises \<^verbatim>\<open>ValidationError\<close> with the collected entries.\<close>

definition raise_validation :: "'a validated \<Rightarrow> exception + 'a" where
  "raise_validation r = (case r of Inl es \<Rightarrow> Inl (ValidationError es) | Inr v \<Rightarrow> Inr v)"

subsubsection \<open>Block (models.py, lines 91 to 95)\<close>

record Block =
  block_height :: int
  block_timestamp :: int

definition Block_fields :: "library \<Rightarrow> json \<Rightarrow> Block validated" where
  "Block_fields L j =
     (case j of
        JDict d \<Rightarrow>
          (case both (required d ''height'' (v_int L)) (required d ''timestamp'' (v_int L)) of
             Inl es \<Rightarrow> Inl es
           | Inr (h, t) \<Rightarrow> Inr \<lparr>block_height = h, block_timestamp = t\<rparr>)
      | _ \<Rightarrow> Inl [([], ''model_type'')])"

definition Block_model_validate :: "library \<Rightarrow> json \<Rightarrow> exception + Block" where
  "Block_model_validate L data = raise_validation (Block_fields L data)"

subsubsection \<open>Stablecoin (models.py, lines 161 to 181)\<close>

record Stablecoin =
  sc_id :: string
  sc_name :: string
  sc_symbol :: string
  sc_gecko_id :: "string option"
  sc_pegType :: string
  sc_priceSource :: "string option"
  sc_pegMechanism :: string
  sc_circulating :: "(string \<times> real) list"
  sc_circulatingPrevDay :: "dict_or_int option"
  sc_circulatingPrevWeek :: "dict_or_int option"
  sc_circulatingPrevMonth :: "dict_or_int option"
  sc_price :: "real option"
  sc_chainCirculating :: "(string \<times> (string \<times> dict_or_int) list) list option"

definition Stablecoin_fields :: "library \<Rightarrow> json \<Rightarrow> Stablecoin validated" where
  "Stablecoin_fields L j =
     (case j of
        JDict d \<Rightarrow>
          (case
             both (required d ''id'' v_str)
            (both (required d ''name'' v_str)
            (both (required d ''symbol'' v_str)
            (both (optional d ''gecko_id'' v_str)
            (both (required d ''pegType'' v_str)
            (both (optional d ''priceSource'' v_str)
            (both (required d ''pegMechanism'' v_str)
            (both (required d ''circulating'' (v_dict (v_float L)))
            (both (optional d ''circulatingPrevDay'' (v_dict_or_int L))
            (both (optional d ''circulatingPrevWeek'' (v_dict_or_int L))
            (both (optional d ''circulatingPrevMonth'' (v_dict_or_int L))
            (both (optional d ''price'' (v_float L))
                  (optional d ''chainCirculating'' (v_dict (v_dict (v_dict_or_int L))))
            )))))))))))
           of
             Inl es \<Rightarrow> Inl es
           | Inr (i, n, s, g, pt, ps, pm, c, cd, cw, cm, p, cc) \<Rightarrow>
               Inr \<lparr>sc_id = i, sc_name = n, sc_symbol = s, sc_gecko_id = g, sc_pegType = pt,
                    sc_priceSource = ps, sc_pegMechanism = pm, sc_circulating = c,
                    sc_circulatingPrevDay = cd, sc_circulatingPrevWeek = cw,
                    sc_circulatingPrevMonth = cm, sc_price = p, sc_chainCirculating = cc\<rparr>)
      | _ \<Rightarrow> Inl [([], ''model_type'')])"

text \<open>\<^verbatim>\<open>Stablecoins = TypeAdapter(List[Stablecoin])\<close> and its \<^verbatim>\<open>validate_python\<close>.\<close>

definition Stablecoins_validate_python :: "library \<Rightarrow> json \<Rightarrow> exception + Stablecoin list" where
  "Stablecoins_validate_python L data = raise_validation (v_list (Stablecoin_fields L) data)"

subsubsection \<open>Pool (models.py, lines 240 to 261)\<close>

record Pool =
  pool_chain :: string
  pool_project :: string
  pool_symbol :: string
  pool_tvlUsd :: real
  pool_apyBase :: "real option"
  pool_apyReward :: "real option"
  pool_apy :: real
  pool_rewardTokens :: "string option list option"
  pool_pool :: string
  pool_apyPct1D :: "real option"
  pool_apyPct7D :: "real option"
  pool_apyPct30D :: "real option"
  pool_stablecoin :: bool
  pool_ilRisk :: "string option"
  pool_exposure :: "string option"
  pool_predictions :: "(string \<times> json) list option"

definition Pool_fields :: "library \<Rightarrow> json \<Rightarrow> Pool validated" where
  "Pool_fields L j =
     (case j of
        JDict d \<Rightarrow>
          (case
             both (required d ''chain'' v_str)
            (both (required d ''project'' v_str)
            (both (required d ''symbol'' v_str)
            (both (required d ''tvlUsd'' (v_float L))
            (both (optional d ''apyBase'' (v_float L))
            (both (optional d ''apyReward'' (v_float L))
            (both (required d ''apy'' (v_float L))
            (both (optional d ''rewardTokens'' (v_list (v_optional v_str)))
            (both (required d ''pool'' v_str)
            (both (optional d ''apyPct1D'' (v_float L))
            (both (optional d ''apyPct7D'' (v_float L))
            (both (optional d ''apyPct30D'' (v_float L))
            (both (required d ''stablecoin'' (v_bool L))
            (both (optional d ''ilRisk'' v_str)
            (both (optional d ''exposure'' v_str)
                  (optional d ''predictions'' (v_dict v_any))
            ))))))))))))))
           of
             Inl es \<Rightarrow> Inl es
           | Inr (c, pr, s, t, ab, ar, a, rt, p, a1, a7, a30, st, il, ex, pd) \<Rightarrow>
               Inr \<lparr>pool_chain = c, pool_project = pr, pool_symbol = s, pool_tvlUsd = t,
                    pool_apyBase = ab, pool_apyReward = ar, pool_apy = a, pool_rewardTokens = rt,
                    pool_pool = p, pool_apyPct1D = a1, pool_apyPct7D = a7, pool_apyPct30D = a30,
                    pool_stablecoin = st, pool_ilRisk = il, pool_exposure = ex,
                    pool_predictions = pd\<rparr>)
      | _ \<Rightarrow> Inl [([], ''model_type'')])"

text \<open>\<^verbatim>\<open>Pools = TypeAdapter(List[Pool])\<close> and its \<^verbatim>\<open>validate_python\<close>.\<close>

definition Pools_validate_python :: "library \<Rightarrow> json \<Rightarrow> exception + Pool list" where
  "Pools_validate_python L data = raise_validation (v_list (Pool_fields L) data)"

subsection \<open>The operations\<close>

text \<open>\<^verbatim>\<open>get_protocol\<close> and \<^verbatim>\<open>get_protocol_async\<close> (lines 75 to 105). The validator of
  \<^verbatim>\<open>models.ProtocolDetails\<close> is an argument: the operation applies it to the body that
  \<^verbatim>\<open>_request\<close> returns, and only then.\<close>

definition get_protocol ::
  "library \<Rightarrow> transport \<Rightarrow> (json \<Rightarrow> exception + 'a) \<Rightarrow> string \<Rightarrow> exception + 'a" where
  "get_protocol L T ProtocolDetails_model_validate protocol_slug =
     (case request L T (get_protocol_request protocol_slug) of
        Inl e \<Rightarrow> Inl e
      | Inr data \<Rightarrow> ProtocolDetails_model_validate data)"

definition get_protocol_async ::
  "library \<Rightarrow> transport \<Rightarrow> (json \<Rightarrow> exception + 'a) \<Rightarrow> string \<Rightarrow> exception + 'a" where
  "get_protocol_async L T ProtocolDetails_model_validate protocol_slug =
     (case async_request L T (get_protocol_request protocol_slug) of
        Inl e \<Rightarrow> Inl e
      | Inr data \<Rightarrow> ProtocolDetails_model_validate data)"

text \<open>\<^verbatim>\<open>get_protocol_tvl\<close> and \<^verbatim>\<open>get_protocol_tvl_async\<close> (lines 147 to 173) return what
  \<^verbatim>\<open>_request\<close> returns.\<close>

definition get_protocol_tvl :: "library \<Rightarrow> transport \<Rightarrow> string \<Rightarrow> exception + json" where
  "get_protocol_tvl L T protocol_slug = request L T (get_protocol_tvl_request protocol_slug)"

definition get_protocol_tvl_async :: "library \<Rightarrow> transport \<Rightarrow> string \<Rightarrow> exception + json" where
  "get_protocol_tvl_async L T protocol_slug =
     async_request L T (get_protocol_tvl_request protocol_slug)"

text \<open>\<^verbatim>\<open>get_block\<close> and \<^verbatim>\<open>get_block_async\<close> (lines 539 to 581).\<close>

definition get_block :: "library \<Rightarrow> transport \<Rightarrow> string \<Rightarrow> int \<Rightarrow> exception + Block" where
  "get_block L T chain timestamp =
     (case request L T (get_block_request chain timestamp) of
        Inl e \<Rightarrow> Inl e
      | Inr data \<Rightarrow> Block_model_validate L data)"

definition get_block_async :: "library \<Rightarrow> transport \<Rightarrow> string \<Rightarrow> int \<Rightarrow> exception + Block" where
  "get_block_async L T chain timestamp =
     (case async_request L T (get_block_async_request chain timestamp) of
        Inl e \<Rightarrow> Inl e
      | Inr data \<Rightarrow> Block_model_validate L data)"

text \<open>\<^verbatim>\<open>get_stablecoins\<close> and \<^verbatim>\<open>get_stablecoins_async\<close> (lines 583 to 625):
  \<^verbatim>\<open>if isinstance(data, dict) and "peggedAssets" in data\<close> the list under that key is
  validated, otherwise the body itself.\<close>

definition get_stablecoins ::
  "library \<Rightarrow> transport \<Rightarrow> bool option \<Rightarrow> exception + Stablecoin list" where
  "get_stablecoins L T include_prices =
     (case request L T (get_stablecoins_request include_prices) of
        Inl e \<Rightarrow> Inl e
      | Inr data \<Rightarrow>
          (case data of
             JDict d \<Rightarrow>
               (case map_of d ''peggedAssets'' of
                  Some inner \<Rightarrow> Stablecoins_validate_python L inner
                | None \<Rightarrow> Stablecoins_validate_python L data)
           | _ \<Rightarrow> Stablecoins_validate_python L data))"

definition get_stablecoins_async ::
  "library \<Rightarrow> transport \<Rightarrow> bool option \<Rightarrow> exception + Stablecoin list" where
  "get_stablecoins_async L T include_prices =
     (case async_request L T (get_stablecoins_async_request include_prices) of
        Inl e \<Rightarrow> Inl e
      | Inr data \<Rightarrow>
          (case data of
             JDict d \<Rightarrow>
               (case map_of d ''peggedAssets'' of
                  Some inner \<Rightarrow> Stablecoins_validate_python L inner
                | None \<Rightarrow> Stablecoins_validate_python L data)
           | _ \<Rightarrow> Stablecoins_validate_python L data))"

text \<open>\<^verbatim>\<open>get_pools\<close> and \<^verbatim>\<open>get_pools_async\<close> (lines 769 to 797), with the key
  \<^verbatim>\<open>"data"\<close>.\<close>

definition get_pools :: "library \<Rightarrow> transport \<Rightarrow> exception + Pool list" where
  "get_pools L T =
     (case request L T get_pools_request of
        Inl e \<Rightarrow> Inl e
      | Inr data \<Rightarrow>
          (case data of
             JDict d \<Rightarrow>
               (case map_of d ''data'' of
                  Some inner \<Rightarrow> Pools_validate_python L inner
                | None \<Rightarrow> Pools_validate_python L data)
           | _ \<Rightarrow> Pools_validate_python L data))"

definition get_pools_async :: "library \<Rightarrow> transport \<Rightarrow> exception + Pool list" where
  "get_pools_async L T =
     (case async_request L T get_pools_request of
        Inl e \<Rightarrow> Inl e
      | Inr data \<Rightarrow>
          (case data of
             JDict d \<Rightarrow>
               (case map_of d ''data'' of
                  Some inner \<Rightarrow> Pools_validate_python L inner
                | None \<Rightarrow> Pools_validate_python L data)
           | _ \<Rightarrow> Pools_validate_python L data))"

subsection \<open>Notions used to state the properties\<close>

text \<open>How a caller tells the exceptions apart: by the class of the exception, never by
  its message.\<close>

datatype error_kind = Transport | Http | Decode | Validation

fun kind_of :: "exception \<Rightarrow> error_kind" where
  "kind_of (TransportError m) = Transport"
| "kind_of (ValueError m c) = Http"
| "kind_of JSONDecodeError = Decode"
| "kind_of (ValidationError es) = Validation"

text \<open>The status code and the raw body that an exception gives access to: those of the
  response held by the chained status error (\<^verbatim>\<open>e.__cause__.response\<close>).\<close>

fun http_status :: "exception \<Rightarrow> int option" where
  "http_status (ValueError m (HTTPStatusError m' r)) = Some (status_code r)"
| "http_status e = None"




text \<open>The keys of the query string of a request, and its values.\<close>

definition param_keys :: "http_request \<Rightarrow> string list" where
  "param_keys rq = (case req_params rq of None \<Rightarrow> [] | Some d \<Rightarrow> map fst d)"

definition param_values :: "http_request \<Rightarrow> param list" where
  "param_values rq = (case req_params rq of None \<Rightarrow> [] | Some d \<Rightarrow> map snd d)"

text \<open>The comma-joined segment in the words of the specification: the first identifier,
  then every further identifier after one comma.\<close>

fun comma_joined :: "string list \<Rightarrow> string" where
  "comma_joined [] = []"
| "comma_joined (c # cs) = c @ concat (map (\<lambda>x. CHR '','' # x) cs)"

text \<open>Cutting a string at every occurrence of a character (\<^verbatim>\<open>s.split(c)\<close>); it reads
  the identifiers back from a segment.\<close>

fun split_on :: "char \<Rightarrow> string \<Rightarrow> string list" where
  "split_on c [] = [[]]"
| "split_on c (x # xs) =
     (if x = c then [] # split_on c xs
      else (case split_on c xs of [] \<Rightarrow> [[x]] | w # ws \<Rightarrow> (x # w) # ws))"

subsection \<open>Sample values\<close>

text \<open>A library that reads no string as a number or a truth value, and whose status
  message names the status code and the URL.\<close>

definition sample_library :: library where
  "sample_library =
     \<lparr>status_message =
        (\<lambda>rq r. ''status '' @ str_of_int (status_code r) @ '' for url '' @ req_url rq),
      str_as_int = (\<lambda>s. None),
      str_as_float = (\<lambda>s. None),
      str_as_bool = (\<lambda>s. None)\<rparr>"

text \<open>A stablecoin object as the service sends it, with given values under
  \<^verbatim>\<open>circulating\<close> and \<^verbatim>\<open>circulatingPrevDay\<close>.\<close>

definition sample_stablecoin :: "json \<Rightarrow> json \<Rightarrow> json" where
  "sample_stablecoin c pd =
     JDict [(''id'', JStr ''1''), (''name'', JStr ''Tether''), (''symbol'', JStr ''USDT''),
            (''gecko_id'', JStr ''tether''), (''pegType'', JStr ''peggedUSD''),
            (''priceSource'', JNull), (''pegMechanism'', JStr ''fiat-backed''),
            (''circulating'', c), (''circulatingPrevDay'', pd),
            (''circulatingPrevWeek'', JInt 0), (''price'', JInt 1)]"

text \<open>What the validator makes of it when both values are accepted.\<close>

definition sample_stablecoin_value ::
  "(string \<times> real) list \<Rightarrow> dict_or_int option \<Rightarrow> Stablecoin" where
  "sample_stablecoin_value c pd =
     \<lparr>sc_id = ''1'', sc_name = ''Tether'', sc_symbol = ''USDT'', sc_gecko_id = Some ''tether'',
      sc_pegType = ''peggedUSD'', sc_priceSource = None, sc_pegMechanism = ''fiat-backed'',
      sc_circulating = c, sc_circulatingPrevDay = pd,
      sc_circulatingPrevWeek = Some (IntOf 0), sc_circulatingPrevMonth = None,
      sc_price = Some 1, sc_chainCirculating = None\<rparr>"

text \<open>A pool object with the required fields, under a given pool id.\<close>

definition sample_pool :: "string \<Rightarrow> json" where
  "sample_pool p =
     JDict [(''chain'', JStr ''Ethereum''), (''project'', JStr ''lido''),
            (''symbol'', JStr ''STETH''), (''tvlUsd'', JInt 5), (''apy'', JFloat (5 / 2)),
            (''pool'', JStr p), (''stablecoin'', JBool False)]"

definition sample_pool_value :: "string \<Rightarrow> Pool" where
  "sample_pool_value p =
     \<lparr>pool_chain = ''Ethereum'', pool_project = ''lido'', pool_symbol = ''STETH'',
      pool_tvlUsd = 5, pool_apyBase = None, pool_apyReward = None, pool_apy = 5 / 2,
      pool_rewardTokens = None, pool_pool = p, pool_apyPct1D = None, pool_apyPct7D = None,
      pool_apyPct30D = None, pool_stablecoin = False, pool_ilRisk = None,
      pool_exposure = None, pool_predictions = None\<rparr>"

text \<open>Responses: a 2xx response with a JSON body, and a response with another status.\<close>

definition ok_response :: "json \<Rightarrow> http_response" where
  "ok_response j = \<lparr>status_code = 200, body_text = ''(json)'', body_json = Some j\<rparr>"

definition status_response :: "int \<Rightarrow> string \<Rightarrow> http_response" where
  "status_response code body = \<lparr>status_code = code, body_text = body, body_json = None\<rparr>"

section \<open>Properties\<close>

subsection \<open>The request function\<close>

lemma async_request_eq: "async_request L T rq = request L T rq"
  by (simp add: async_request_def request_def)


lemma request_failure:
  "T rq = Returns r \<Longrightarrow> \<not> is_success r \<Longrightarrow>
   request L T rq =
     Inl (ValueError (''HTTP error: '' @ status_message L rq r)
           (HTTPStatusError (status_message L rq r) r))"
  by (simp add: request_def raise_for_status_def)

lemma request_success:
  "T rq = Returns r \<Longrightarrow> is_success r \<Longrightarrow>
   request L T rq = (case body_json r of None \<Rightarrow> Inl JSONDecodeError | Some j \<Rightarrow> Inr j)"
  by (simp add: request_def raise_for_status_def)



text \<open>Apart from the nearest-block operation, the two forms of an operation pass the same
  request.\<close>

lemma forms_same_request:
  "get_current_prices_async_request coins sw = get_current_prices_request coins sw"
  "get_historical_prices_async_request ts coins sw = get_historical_prices_request ts coins sw"
  "get_batch_historical_prices_async_request cs w = get_batch_historical_prices_request cs w"
  "get_price_chart_async_request coins s e n p w = get_price_chart_request coins s e n p w"
  "get_price_percentage_change_async_request coins t lf pd
     = get_price_percentage_change_request coins t lf pd"
  "get_first_prices_async_request coins = get_first_prices_request coins"
  "get_stablecoins_async_request ip = get_stablecoins_request ip"
  "get_stablecoin_charts_async_request chain sc = get_stablecoin_charts_request chain sc"
  "get_dexs_async_request chain x y = get_dexs_request chain x y"
  "get_dex_summary_async_request slug x y = get_dex_summary_request slug x y"
  "get_options_dexs_async_request chain x y dt = get_options_dexs_request chain x y dt"
  "get_options_dex_summary_async_request slug dt = get_options_dex_summary_request slug dt"
  "get_fees_async_request chain x y dt = get_fees_request chain x y dt"
  "get_fee_summary_async_request slug dt = get_fee_summary_request slug dt"
  by (simp_all add: get_current_prices_async_request_def get_current_prices_request_def
      get_historical_prices_async_request_def get_historical_prices_request_def
      get_batch_historical_prices_async_request_def get_batch_historical_prices_request_def
      get_price_chart_async_request_def get_price_chart_request_def
      get_price_percentage_change_async_request_def get_price_percentage_change_request_def
      get_first_prices_async_request_def get_first_prices_request_def
      get_stablecoins_async_request_def get_stablecoins_request_def
      get_stablecoin_charts_async_request_def get_stablecoin_charts_request_def
      get_dexs_async_request_def get_dexs_request_def
      get_dex_summary_async_request_def get_dex_summary_request_def
      get_options_dexs_async_request_def get_options_dexs_request_def
      get_options_dex_summary_async_request_def get_options_dex_summary_request_def
      get_fees_async_request_def get_fees_request_def
      get_fee_summary_async_request_def get_fee_summary_request_def)

text \<open>The two forms of the nearest-block operation pass the same request exactly for a
  chain name without upper-case letters.\<close>

lemma get_block_requests_agree_iff:
  "get_block_async_request chain ts = get_block_request chain ts \<longleftrightarrow> lower chain = chain"
  by (auto simp: get_block_async_request_def get_block_request_def)

subsection \<open>The query parameters\<close>

lemma keys_dict_set: "fst ` set (dict_set d k v) = insert k (fst ` set d)"
  by (induction d k v rule: dict_set.induct) auto

lemma values_dict_set: "snd ` set (dict_set d k v) \<subseteq> insert v (snd ` set d)"
  by (induction d k v rule: dict_set.induct) auto

lemma keys_set_if_int:
  "fst ` set (set_if_int d k x) =
     (case x of None \<Rightarrow> fst ` set d
      | Some n \<Rightarrow> if n = 0 then fst ` set d else insert k (fst ` set d))"
  by (simp add: set_if_int_def keys_dict_set split: option.splits)

lemma keys_set_if_str:
  "fst ` set (set_if_str d k x) =
     (case x of None \<Rightarrow> fst ` set d
      | Some s \<Rightarrow> if s = [] then fst ` set d else insert k (fst ` set d))"
  by (simp add: set_if_str_def keys_dict_set split: option.splits)

lemma values_set_if_int:
  "PStr [] \<notin> snd ` set d \<Longrightarrow> PStr [] \<notin> snd ` set (set_if_int d k x)"
  using values_dict_set [of d k] by (auto simp: set_if_int_def split: option.splits)

lemma values_set_if_str:
  "PStr [] \<notin> snd ` set d \<Longrightarrow> PStr [] \<notin> snd ` set (set_if_str d k x)"
  using values_dict_set [of d k] by (auto simp: set_if_str_def split: option.splits)

lemma set_if_int_zero: "set_if_int d k (Some 0) = set_if_int d k None"
  by (simp add: set_if_int_def)

lemma param_keys_price_chart:
  "set (param_keys (get_price_chart_request coins s e n p w)) =
     (case s of None \<Rightarrow> {} | Some x \<Rightarrow> if x = 0 then {} else {''start''})
   \<union> (case e of None \<Rightarrow> {} | Some x \<Rightarrow> if x = 0 then {} else {''end''})
   \<union> (case n of None \<Rightarrow> {} | Some x \<Rightarrow> if x = 0 then {} else {''span''})
   \<union> (case p of None \<Rightarrow> {} | Some x \<Rightarrow> if x = [] then {} else {''period''})
   \<union> (case w of None \<Rightarrow> {} | Some x \<Rightarrow> if x = [] then {} else {''searchWidth''})"
  by (auto simp: param_keys_def get_price_chart_request_def keys_set_if_int keys_set_if_str
      split: option.splits if_splits)

lemma get_price_chart_async_request_eq:
  "get_price_chart_async_request coins s e n p w = get_price_chart_request coins s e n p w"
  by (simp add: get_price_chart_async_request_def get_price_chart_request_def)

subsection \<open>Joining and splitting\<close>

lemma join_comma_joined: "join '','' coins = comma_joined coins"
  by (induction "'',''" coins rule: join.induct) simp_all

lemma split_on_no_sep: "c \<notin> set x \<Longrightarrow> split_on c x = [x]"
  by (induction x) auto

lemma split_on_append: "c \<notin> set x \<Longrightarrow> split_on c (x @ c # rest) = x # split_on c rest"
  by (induction x) auto

lemma split_on_join:
  "coins \<noteq> [] \<Longrightarrow> \<forall>x\<in>set coins. c \<notin> set x \<Longrightarrow> split_on c (join [c] coins) = coins"
  by (induction "[c]" coins rule: join.induct) (simp_all add: split_on_no_sep split_on_append)

subsection \<open>The validators\<close>

lemma both_Inr_iff: "both a b = Inr p \<longleftrightarrow> (\<exists>x y. a = Inr x \<and> b = Inr y \<and> p = (x, y))"
  by (auto simp: both_def split: sum.splits)

lemma at_loc_Inr_iff: "at_loc i r = Inr v \<longleftrightarrow> r = Inr v"
  by (auto simp: at_loc_def split: sum.splits)

lemma raise_validation_Inr: "raise_validation r = Inr v \<longleftrightarrow> r = Inr v"
  by (auto simp: raise_validation_def split: sum.splits)

lemma v_items_Cons_Inr:
  "v_items f i (x # xs) = Inr ys \<longleftrightarrow>
     (\<exists>v vs. f x = Inr v \<and> v_items f (Suc i) xs = Inr vs \<and> ys = v # vs)"
proof (cases "both (at_loc (Idx i) (f x)) (v_items f (Suc i) xs)")
  case (Inl es)
  then have "\<not> (\<exists>v vs. f x = Inr v \<and> v_items f (Suc i) xs = Inr vs)"
    by (auto simp: both_def at_loc_def)
  with Inl show ?thesis by auto
next
  case (Inr p)
  then show ?thesis
    using both_Inr_iff [of "at_loc (Idx i) (f x)" "v_items f (Suc i) xs" p]
    by (cases p) (auto simp: at_loc_Inr_iff)
qed

lemma v_items_Inr_iff: "v_items f i xs = Inr ys \<longleftrightarrow> list_all2 (\<lambda>x y. f x = Inr y) xs ys"
proof (induction xs arbitrary: i ys)
  case Nil
  show ?case by auto
next
  case (Cons x xs)
  show ?case
    unfolding v_items_Cons_Inr Cons.IH by (auto simp: list_all2_Cons1)
qed



lemma optional_Inr_iff:
  "optional d k f = Inr v \<longleftrightarrow>
     (map_of d k = None \<and> v = None) \<or> (\<exists>j. map_of d k = Some j \<and> v_optional f j = Inr v)"
  by (auto simp: optional_def at_loc_Inr_iff split: option.splits)




lemma Stablecoin_fields_Inr:
  assumes "Stablecoin_fields L (JDict d) = Inr s"
  shows "required d ''circulating'' (v_dict (v_float L)) = Inr (sc_circulating s)"
    and "optional d ''circulatingPrevDay'' (v_dict_or_int L) = Inr (sc_circulatingPrevDay s)"
    and "optional d ''circulatingPrevWeek'' (v_dict_or_int L) = Inr (sc_circulatingPrevWeek s)"
    and "optional d ''circulatingPrevMonth'' (v_dict_or_int L) = Inr (sc_circulatingPrevMonth s)"
  using assms
  by (auto simp: Stablecoin_fields_def both_Inr_iff split: sum.splits)

text \<open>The sample objects are accepted, with these values.\<close>

lemma sample_stablecoin_decodes:
  "Stablecoin_fields L (sample_stablecoin (JDict [(''peggedUSD'', JInt 100)]) (JDict [(''ethereum'', JFloat 1000)]))
   = Inr (sample_stablecoin_value [(''peggedUSD'', 100)] (Some (DictOf [(''ethereum'', 1000)])))"
  "Stablecoin_fields L (sample_stablecoin (JDict [(''peggedUSD'', JInt 100)]) (JInt 0))
   = Inr (sample_stablecoin_value [(''peggedUSD'', 100)] (Some (IntOf 0)))"
  by (simp_all add: Stablecoin_fields_def sample_stablecoin_def sample_stablecoin_value_def
      required_def optional_def v_str_def v_float_def v_dict_def v_dict_or_int_def
      v_optional_def v_int_def both_def at_loc_def)

lemma sample_pool_decodes: "Pool_fields L (sample_pool p) = Inr (sample_pool_value p)"
  by (simp add: Pool_fields_def sample_pool_def sample_pool_value_def required_def optional_def
      v_str_def v_float_def v_bool_def v_optional_def both_def at_loc_def)

subsection \<open>C1: the kinds of error\<close>




subsection \<open>C2: the blocking and the non-blocking form\<close>

text \<open>
  C2 says that the two forms of an operation build the same request, in particular those
  of the nearest-block operation for every chain string. The blocking form writes
  \<^verbatim>\<open>chain.lower()\<close> into the path, the non-blocking form writes \<^verbatim>\<open>chain\<close>: for the
  chain \<^verbatim>\<open>"Ethereum"\<close> and the timestamp 1 the two URLs differ, and against a service that
  knows the chain under its lower-case name only, the blocking form returns the block and
  the non-blocking form fails.
\<close>

theorem get_block_sync_async_differ:
  "req_url (get_block_request ''Ethereum'' 1) = ''https://coins.llama.fi/block/ethereum/1''
 \<and> req_url (get_block_async_request ''Ethereum'' 1) = ''https://coins.llama.fi/block/Ethereum/1''
 \<and> get_block sample_library
      (\<lambda>rq. if req_url rq = ''https://coins.llama.fi/block/ethereum/1''
             then Returns (ok_response (JDict [(''height'', JInt 7), (''timestamp'', JInt 1)]))
             else Returns (status_response 400 ''unknown chain''))
      ''Ethereum'' 1
    = Inr \<lparr>block_height = 7, block_timestamp = 1\<rparr>
 \<and> get_block_async sample_library
      (\<lambda>rq. if req_url rq = ''https://coins.llama.fi/block/ethereum/1''
             then Returns (ok_response (JDict [(''height'', JInt 7), (''timestamp'', JInt 1)]))
             else Returns (status_response 400 ''unknown chain''))
      ''Ethereum'' 1
    = Inl (ValueError ''HTTP error: status 400 for url https://coins.llama.fi/block/Ethereum/1''
         (HTTPStatusError ''status 400 for url https://coins.llama.fi/block/Ethereum/1''
            (status_response 400 ''unknown chain'')))"
  by code_simp

subsection \<open>C3: the circulating fields of a stablecoin\<close>




subsection \<open>C4: a protocol slug that the service does not know\<close>

text \<open>
  C4. The client learns that a slug does not exist from the status of the response. When
  the service answers the protocol-detail request with status 400 or 404, the operation, in
  both forms, fails with the HTTP kind of error, raised from the status error of that
  response (which holds the status 400 or 404); it does not fail with a validation error
  and it does not return a value, whatever the validator of the model is.
\<close>

theorem get_protocol_not_found:
  assumes "T (get_protocol_request slug) = Returns r"
    and "status_code r = 400 \<or> status_code r = 404"
  shows "get_protocol L T V slug =
           Inl (ValueError (''HTTP error: '' @ status_message L (get_protocol_request slug) r)
                 (HTTPStatusError (status_message L (get_protocol_request slug) r) r))
       \<and> get_protocol_async L T V slug = get_protocol L T V slug
       \<and> (\<exists>e. get_protocol L T V slug = Inl e \<and> kind_of e = Http \<and>
               (http_status e = Some 400 \<or> http_status e = Some 404))
       \<and> (\<forall>es. get_protocol L T V slug \<noteq> Inl (ValidationError es))
       \<and> (\<forall>v. get_protocol L T V slug \<noteq> Inr v)"
proof -
  from assms(2) have "\<not> is_success r" by (auto simp: is_success_def)
  with assms(1) have "request L T (get_protocol_request slug) =
      Inl (ValueError (''HTTP error: '' @ status_message L (get_protocol_request slug) r)
            (HTTPStatusError (status_message L (get_protocol_request slug) r) r))"
    by (rule request_failure)
  with assms(2) show ?thesis
    by (auto simp: get_protocol_def get_protocol_async_def async_request_eq)
qed

text \<open>The theorem at the slug \<^verbatim>\<open>nonexistent-protocol-slug\<close> and a response with status
  404.\<close>

theorem get_protocol_not_found_witness:
  "get_protocol sample_library (\<lambda>rq. Returns (status_response 404 ''Not Found'')) Inr
      ''nonexistent-protocol-slug''
     = Inl (ValueError
         ''HTTP error: status 404 for url https://api.llama.fi/protocol/nonexistent-protocol-slug''
         (HTTPStatusError
            ''status 404 for url https://api.llama.fi/protocol/nonexistent-protocol-slug''
            (status_response 404 ''Not Found'')))"
proof -
  have s: "status_code (status_response 404 ''Not Found'') = 400
         \<or> status_code (status_response 404 ''Not Found'') = 404"
    by (simp add: status_response_def)
  have m: "status_message sample_library (get_protocol_request ''nonexistent-protocol-slug'')
             (status_response 404 ''Not Found'')
           = ''status 404 for url https://api.llama.fi/protocol/nonexistent-protocol-slug''"
    by code_simp
  show ?thesis
    using get_protocol_not_found [where T = "\<lambda>rq. Returns (status_response 404 ''Not Found'')"
        and slug = "''nonexistent-protocol-slug''" and L = sample_library and V = Inr
        and r = "status_response 404 ''Not Found''", OF refl s] m
    by simp
qed

subsection \<open>C5: unwrapping the envelope\<close>

lemma get_stablecoins_body:
  assumes "T (get_stablecoins_request ip) = Returns r" and "is_success r"
    and "body_json r = Some j"
  shows "get_stablecoins L T ip =
           (case j of
              JDict d \<Rightarrow>
                (case map_of d ''peggedAssets'' of
                   Some inner \<Rightarrow> Stablecoins_validate_python L inner
                 | None \<Rightarrow> Stablecoins_validate_python L j)
            | _ \<Rightarrow> Stablecoins_validate_python L j)"
    and "get_stablecoins_async L T ip = get_stablecoins L T ip"
  using assms
  by (simp_all add: get_stablecoins_def get_stablecoins_async_def async_request_eq
      get_stablecoins_async_request_def get_stablecoins_request_def request_success)

lemma get_pools_body:
  assumes "T get_pools_request = Returns r" and "is_success r" and "body_json r = Some j"
  shows "get_pools L T =
           (case j of
              JDict d \<Rightarrow>
                (case map_of d ''data'' of
                   Some inner \<Rightarrow> Pools_validate_python L inner
                 | None \<Rightarrow> Pools_validate_python L j)
            | _ \<Rightarrow> Pools_validate_python L j)"
    and "get_pools_async L T = get_pools L T"
  using assms
  by (simp_all add: get_pools_def get_pools_async_def async_request_eq request_success)

text \<open>
  C5. When the service answers the stablecoins request with an object that holds a list
  under \<^verbatim>\<open>peggedAssets\<close>, the operation returns what it returns for the bare list: the
  list of the decoded items, in order, exactly when every item decodes (for the list
  \<^verbatim>\<open>[a, b]\<close>, the list of the two decoded items). The pools operation does the same with
  the key \<^verbatim>\<open>data\<close>. Both forms of both operations agree.
\<close>

theorem envelope_unwrapping:
  assumes "T (get_stablecoins_request ip) = Returns env" and "is_success env"
    and "body_json env = Some (JDict d)" and "map_of d ''peggedAssets'' = Some (JList xs)"
    and "T' (get_stablecoins_request ip) = Returns bare" and "is_success bare"
    and "body_json bare = Some (JList xs)"
    and "P get_pools_request = Returns envp" and "is_success envp"
    and "body_json envp = Some (JDict dp)" and "map_of dp ''data'' = Some (JList ps)"
    and "P' get_pools_request = Returns barep" and "is_success barep"
    and "body_json barep = Some (JList ps)"
  shows "get_stablecoins L T ip = get_stablecoins L T' ip
       \<and> get_stablecoins_async L T ip = get_stablecoins L T ip
       \<and> get_stablecoins_async L T' ip = get_stablecoins L T' ip
       \<and> (get_stablecoins L T ip = Inr ys
            \<longleftrightarrow> list_all2 (\<lambda>x y. Stablecoin_fields L x = Inr y) xs ys)
       \<and> (\<forall>a b sa sb. xs = [a, b] \<and> Stablecoin_fields L a = Inr sa
             \<and> Stablecoin_fields L b = Inr sb
            \<longrightarrow> get_stablecoins L T ip = Inr [sa, sb] \<and> get_stablecoins L T' ip = Inr [sa, sb])
       \<and> get_pools L P = get_pools L P'
       \<and> get_pools_async L P = get_pools L P
       \<and> get_pools_async L P' = get_pools L P'
       \<and> (get_pools L P = Inr qs \<longleftrightarrow> list_all2 (\<lambda>x y. Pool_fields L x = Inr y) ps qs)
       \<and> (\<forall>a b pa pb. ps = [a, b] \<and> Pool_fields L a = Inr pa \<and> Pool_fields L b = Inr pb
            \<longrightarrow> get_pools L P = Inr [pa, pb] \<and> get_pools L P' = Inr [pa, pb])"
proof -
  have sc: "get_stablecoins L T ip = raise_validation (v_items (Stablecoin_fields L) 0 xs)"
    "get_stablecoins L T' ip = raise_validation (v_items (Stablecoin_fields L) 0 xs)"
    using get_stablecoins_body(1) [where T = T and ip = ip and L = L, OF assms(1,2,3)]
      get_stablecoins_body(1) [where T = T' and ip = ip and L = L, OF assms(5,6,7)] assms(4)
    by (simp_all add: Stablecoins_validate_python_def v_list_def)
  have sca: "get_stablecoins_async L T ip = get_stablecoins L T ip"
    "get_stablecoins_async L T' ip = get_stablecoins L T' ip"
    using get_stablecoins_body(2) [where T = T and ip = ip and L = L, OF assms(1,2,3)]
      get_stablecoins_body(2) [where T = T' and ip = ip and L = L, OF assms(5,6,7)]
    by simp_all
  have pl: "get_pools L P = raise_validation (v_items (Pool_fields L) 0 ps)"
    "get_pools L P' = raise_validation (v_items (Pool_fields L) 0 ps)"
    using get_pools_body(1) [where T = P and L = L, OF assms(8,9,10)]
      get_pools_body(1) [where T = P' and L = L, OF assms(12,13,14)] assms(11)
    by (simp_all add: Pools_validate_python_def v_list_def)
  have pla: "get_pools_async L P = get_pools L P" "get_pools_async L P' = get_pools L P'"
    using get_pools_body(2) [where T = P and L = L, OF assms(8,9,10)]
      get_pools_body(2) [where T = P' and L = L, OF assms(12,13,14)]
    by simp_all
  have sc_iff: "\<And>zs. get_stablecoins L T ip = Inr zs
      \<longleftrightarrow> list_all2 (\<lambda>x y. Stablecoin_fields L x = Inr y) xs zs"
    unfolding sc by (simp add: raise_validation_Inr v_items_Inr_iff)
  have pl_iff: "\<And>zs. get_pools L P = Inr zs
      \<longleftrightarrow> list_all2 (\<lambda>x y. Pool_fields L x = Inr y) ps zs"
    unfolding pl by (simp add: raise_validation_Inr v_items_Inr_iff)
  have same: "get_stablecoins L T' ip = get_stablecoins L T ip" "get_pools L P' = get_pools L P"
    by (simp_all add: sc pl)
  show ?thesis
    unfolding sca pla same sc_iff pl_iff by simp
qed

text \<open>The theorem at two stablecoins and two pools, in an envelope and bare.\<close>

theorem envelope_unwrapping_witness:
  "get_stablecoins sample_library
     (\<lambda>rq. Returns (ok_response (JDict [(''peggedAssets'',
        JList [sample_stablecoin (JDict [(''peggedUSD'', JInt 100)]) (JDict [(''ethereum'', JFloat 1000)]),
               sample_stablecoin (JDict [(''peggedUSD'', JInt 100)]) (JInt 0)])]))) None
     = Inr [sample_stablecoin_value [(''peggedUSD'', 100)] (Some (DictOf [(''ethereum'', 1000)])),
            sample_stablecoin_value [(''peggedUSD'', 100)] (Some (IntOf 0))]
   \<and> get_stablecoins sample_library
     (\<lambda>rq. Returns (ok_response (JList
        [sample_stablecoin (JDict [(''peggedUSD'', JInt 100)]) (JDict [(''ethereum'', JFloat 1000)]),
         sample_stablecoin (JDict [(''peggedUSD'', JInt 100)]) (JInt 0)]))) None
     = Inr [sample_stablecoin_value [(''peggedUSD'', 100)] (Some (DictOf [(''ethereum'', 1000)])),
            sample_stablecoin_value [(''peggedUSD'', 100)] (Some (IntOf 0))]
   \<and> get_pools sample_library
     (\<lambda>rq. Returns (ok_response (JDict [(''status'', JStr ''success''),
        (''data'', JList [sample_pool ''p1'', sample_pool ''p2''])])))
     = Inr [sample_pool_value ''p1'', sample_pool_value ''p2'']
   \<and> get_pools sample_library
     (\<lambda>rq. Returns (ok_response (JList [sample_pool ''p1'', sample_pool ''p2''])))
     = Inr [sample_pool_value ''p1'', sample_pool_value ''p2'']"
proof -
  let ?xs = "[sample_stablecoin (JDict [(''peggedUSD'', JInt 100)]) (JDict [(''ethereum'', JFloat 1000)]),
              sample_stablecoin (JDict [(''peggedUSD'', JInt 100)]) (JInt 0)]"
  let ?ps = "[sample_pool ''p1'', sample_pool ''p2'']"
  let ?d = "[(''peggedAssets'', JList ?xs)]"
  let ?dp = "[(''status'', JStr ''success''), (''data'', JList ?ps)]"
  have ok: "\<And>j. is_success (ok_response j)" "\<And>j. body_json (ok_response j) = Some j"
    by (simp_all add: is_success_def ok_response_def)
  have k1: "map_of ?d ''peggedAssets'' = Some (JList ?xs)"
    by simp
  have k2: "map_of ?dp ''data'' = Some (JList ?ps)"
    by simp
  show ?thesis
    using envelope_unwrapping [where L = sample_library and ip = None
        and T = "\<lambda>rq. Returns (ok_response (JDict ?d))" and env = "ok_response (JDict ?d)"
        and T' = "\<lambda>rq. Returns (ok_response (JList ?xs))" and bare = "ok_response (JList ?xs)"
        and P = "\<lambda>rq. Returns (ok_response (JDict ?dp))" and envp = "ok_response (JDict ?dp)"
        and P' = "\<lambda>rq. Returns (ok_response (JList ?ps))" and barep = "ok_response (JList ?ps)"
        and d = ?d and dp = ?dp and xs = ?xs and ps = ?ps,
        OF refl ok(1) ok(2) k1 refl ok(1) ok(2) refl ok(1) ok(2) k2 refl ok(1) ok(2)]
      sample_stablecoin_decodes [of sample_library] sample_pool_decodes [of sample_library]
    by simp
qed

subsection \<open>C6: decoding the union field\<close>

text \<open>
  C6. The value \<^verbatim>\<open>{"ethereum": 1000.0}\<close> under \<^verbatim>\<open>circulatingPrevDay\<close> decodes to the
  map variant with the key \<^verbatim>\<open>ethereum\<close> and the amount 1000.0, and the value \<^verbatim>\<open>0\<close>
  decodes to the integer variant 0: for the validator of the field on its own, and in
  every stablecoin object that the model accepts.
\<close>

theorem circulatingPrevDay_decoding:
  assumes "Stablecoin_fields L (JDict d) = Inr s"
  shows "(map_of d ''circulatingPrevDay'' = Some (JDict [(''ethereum'', JFloat 1000)])
            \<longrightarrow> sc_circulatingPrevDay s = Some (DictOf [(''ethereum'', 1000)]))
       \<and> (map_of d ''circulatingPrevDay'' = Some (JInt 0)
            \<longrightarrow> sc_circulatingPrevDay s = Some (IntOf 0))
       \<and> v_optional (v_dict_or_int L) (JDict [(''ethereum'', JFloat 1000)])
           = Inr (Some (DictOf [(''ethereum'', 1000)]))
       \<and> v_optional (v_dict_or_int L) (JInt 0) = Inr (Some (IntOf 0))"
proof -
  have a: "v_optional (v_dict_or_int L) (JDict [(''ethereum'', JFloat 1000)])
           = Inr (Some (DictOf [(''ethereum'', 1000)]))"
    by (simp add: v_optional_def v_dict_or_int_def v_dict_def v_float_def both_def at_loc_def)
  have b: "v_optional (v_dict_or_int L) (JInt 0) = Inr (Some (IntOf 0))"
    by (simp add: v_optional_def v_dict_or_int_def v_dict_def v_int_def)
  from Stablecoin_fields_Inr(2) [OF assms] a b show ?thesis
    by (auto simp: optional_Inr_iff)
qed

text \<open>The theorem at the sample object, with each of the two values.\<close>

theorem circulatingPrevDay_decoding_witness:
  "sc_circulatingPrevDay
     (sample_stablecoin_value [(''peggedUSD'', 100)] (Some (DictOf [(''ethereum'', 1000)])))
     = Some (DictOf [(''ethereum'', 1000)])
   \<and> Stablecoin_fields sample_library
       (sample_stablecoin (JDict [(''peggedUSD'', JInt 100)]) (JDict [(''ethereum'', JFloat 1000)]))
     = Inr (sample_stablecoin_value [(''peggedUSD'', 100)] (Some (DictOf [(''ethereum'', 1000)])))
   \<and> sc_circulatingPrevDay (sample_stablecoin_value [(''peggedUSD'', 100)] (Some (IntOf 0)))
     = Some (IntOf 0)
   \<and> Stablecoin_fields sample_library
       (sample_stablecoin (JDict [(''peggedUSD'', JInt 100)]) (JInt 0))
     = Inr (sample_stablecoin_value [(''peggedUSD'', 100)] (Some (IntOf 0)))"
  using circulatingPrevDay_decoding
      [OF sample_stablecoin_decodes(1) [unfolded sample_stablecoin_def], of sample_library]
    circulatingPrevDay_decoding
      [OF sample_stablecoin_decodes(2) [unfolded sample_stablecoin_def], of sample_library]
    sample_stablecoin_decodes [of sample_library]
  by (simp add: sample_stablecoin_value_def)

subsection \<open>C7: optional parameters that the caller does not supply\<close>

text \<open>
  C7, as the code has it. A parameter declared with the default \<^verbatim>\<open>None\<close> that the
  caller does not supply is absent from the query string: \<^verbatim>\<open>start\<close>, \<^verbatim>\<open>end\<close>,
  \<^verbatim>\<open>span\<close>, \<^verbatim>\<open>period\<close>, \<^verbatim>\<open>searchWidth\<close> of the price chart, \<^verbatim>\<open>searchWidth\<close> of
  the batch of historical prices, \<^verbatim>\<open>timestamp\<close> of the percentage change and
  \<^verbatim>\<open>stablecoin\<close> of the stablecoin charts, in both forms; the price chart and the batch
  never send an empty string. A parameter declared with another default is sent with
  that default when the caller does not supply it.
\<close>

theorem none_default_params_absent:
  "''start'' \<notin> set (param_keys (get_price_chart_request coins None e n p w))
 \<and> ''end'' \<notin> set (param_keys (get_price_chart_request coins s None n p w))
 \<and> ''span'' \<notin> set (param_keys (get_price_chart_request coins s e None p w))
 \<and> ''period'' \<notin> set (param_keys (get_price_chart_request coins s e n None w))
 \<and> ''searchWidth'' \<notin> set (param_keys (get_price_chart_request coins s e n p None))
 \<and> get_price_chart_async_request coins s e n p w = get_price_chart_request coins s e n p w
 \<and> PStr [] \<notin> set (param_values (get_price_chart_request coins s e n p w))
 \<and> ''searchWidth'' \<notin> set (param_keys (get_batch_historical_prices_request cs None))
 \<and> get_batch_historical_prices_async_request cs w = get_batch_historical_prices_request cs w
 \<and> PStr [] \<notin> set (param_values (get_batch_historical_prices_request cs w))
 \<and> ''timestamp'' \<notin> set (param_keys (get_price_percentage_change_request coins None lf pd))
 \<and> get_price_percentage_change_async_request coins t lf pd
      = get_price_percentage_change_request coins t lf pd
 \<and> ''stablecoin'' \<notin> set (param_keys (get_stablecoin_charts_request chain None))
 \<and> get_stablecoin_charts_async_request chain sc = get_stablecoin_charts_request chain sc
 \<and> req_params (get_current_prices_request coins None) = Some [(''searchWidth'', PStr ''4h'')]
 \<and> req_params (get_historical_prices_request ts coins None)
      = Some [(''searchWidth'', PStr ''4h'')]
 \<and> req_params (get_price_percentage_change_request coins None None None)
      = Some [(''lookForward'', PBool False), (''period'', PStr ''24h'')]
 \<and> req_params (get_stablecoins_request None) = Some [(''includePrices'', PBool True)]
 \<and> req_params (get_dexs_request chain None None)
      = Some [(''excludeTotalDataChart'', PBool True),
              (''excludeTotalDataChartBreakdown'', PBool True)]
 \<and> req_params (get_dex_summary_request slug None None)
      = Some [(''excludeTotalDataChart'', PBool True),
              (''excludeTotalDataChartBreakdown'', PBool True)]
 \<and> req_params (get_options_dexs_request chain None None None)
      = Some [(''excludeTotalDataChart'', PBool True),
              (''excludeTotalDataChartBreakdown'', PBool True),
              (''dataType'', PStr ''dailyNotionalVolume'')]
 \<and> req_params (get_options_dex_summary_request slug None)
      = Some [(''dataType'', PStr ''dailyNotionalVolume'')]
 \<and> req_params (get_fees_request chain None None None)
      = Some [(''excludeTotalDataChart'', PBool True),
              (''excludeTotalDataChartBreakdown'', PBool True),
              (''dataType'', PStr ''dailyFees'')]
 \<and> req_params (get_fee_summary_request slug None) = Some [(''dataType'', PStr ''dailyFees'')]"
proof -
  have chart_keys:
    "''start'' \<notin> set (param_keys (get_price_chart_request coins None e n p w))"
    "''end'' \<notin> set (param_keys (get_price_chart_request coins s None n p w))"
    "''span'' \<notin> set (param_keys (get_price_chart_request coins s e None p w))"
    "''period'' \<notin> set (param_keys (get_price_chart_request coins s e n None w))"
    "''searchWidth'' \<notin> set (param_keys (get_price_chart_request coins s e n p None))"
    by (simp_all add: param_keys_price_chart split: option.splits)
  have chart_values:
    "PStr [] \<notin> set (param_values (get_price_chart_request coins s e n p w))"
    by (simp add: param_values_def get_price_chart_request_def values_set_if_int
        values_set_if_str)
  have batch_keys:
    "''searchWidth'' \<notin> set (param_keys (get_batch_historical_prices_request cs None))"
    by (simp add: param_keys_def get_batch_historical_prices_request_def set_if_str_def)
  have batch_values:
    "PStr [] \<notin> set (param_values (get_batch_historical_prices_request cs w))"
    by (simp add: param_values_def get_batch_historical_prices_request_def values_set_if_str)
  have others:
    "''timestamp'' \<notin> set (param_keys (get_price_percentage_change_request coins None lf pd))"
    "''stablecoin'' \<notin> set (param_keys (get_stablecoin_charts_request chain None))"
    by (simp_all add: param_keys_def get_price_percentage_change_request_def
        get_stablecoin_charts_request_def set_if_int_def)
  have forms:
    "get_batch_historical_prices_async_request cs w = get_batch_historical_prices_request cs w"
    "get_price_percentage_change_async_request coins t lf pd
      = get_price_percentage_change_request coins t lf pd"
    "get_stablecoin_charts_async_request chain sc = get_stablecoin_charts_request chain sc"
    by (simp_all add: get_batch_historical_prices_async_request_def
        get_batch_historical_prices_request_def get_price_percentage_change_async_request_def
        get_price_percentage_change_request_def get_stablecoin_charts_async_request_def
        get_stablecoin_charts_request_def)
  have defaults:
    "req_params (get_current_prices_request coins None) = Some [(''searchWidth'', PStr ''4h'')]"
    "req_params (get_historical_prices_request ts coins None)
      = Some [(''searchWidth'', PStr ''4h'')]"
    "req_params (get_price_percentage_change_request coins None None None)
      = Some [(''lookForward'', PBool False), (''period'', PStr ''24h'')]"
    "req_params (get_stablecoins_request None) = Some [(''includePrices'', PBool True)]"
    "req_params (get_dexs_request chain None None)
      = Some [(''excludeTotalDataChart'', PBool True),
              (''excludeTotalDataChartBreakdown'', PBool True)]"
    "req_params (get_dex_summary_request slug None None)
      = Some [(''excludeTotalDataChart'', PBool True),
              (''excludeTotalDataChartBreakdown'', PBool True)]"
    "req_params (get_options_dexs_request chain None None None)
      = Some [(''excludeTotalDataChart'', PBool True),
              (''excludeTotalDataChartBreakdown'', PBool True),
              (''dataType'', PStr ''dailyNotionalVolume'')]"
    "req_params (get_options_dex_summary_request slug None)
      = Some [(''dataType'', PStr ''dailyNotionalVolume'')]"
    "req_params (get_fees_request chain None None None)
      = Some [(''excludeTotalDataChart'', PBool True),
              (''excludeTotalDataChartBreakdown'', PBool True),
              (''dataType'', PStr ''dailyFees'')]"
    "req_params (get_fee_summary_request slug None) = Some [(''dataType'', PStr ''dailyFees'')]"
    by (simp_all add: get_current_prices_request_def get_historical_prices_request_def
        get_price_percentage_change_request_def get_stablecoins_request_def get_dexs_request_def
        get_dex_summary_request_def get_options_dexs_request_def
        get_options_dex_summary_request_def get_fees_request_def get_fee_summary_request_def
        default_arg_def set_if_int_def)
  show ?thesis
    using chart_keys chart_values batch_keys batch_values others forms defaults
    by (simp add: get_price_chart_async_request_eq)
qed

text \<open>C7 as the specification words it fails for the current prices: the caller who
  does not supply \<^verbatim>\<open>search_width\<close> sends \<^verbatim>\<open>searchWidth=4h\<close>.\<close>

theorem default_search_width_sent_counterexample:
  "''searchWidth'' \<in> set (param_keys (get_current_prices_request [''coingecko:ethereum''] None))"
  by (simp add: param_keys_def get_current_prices_request_def default_arg_def)

subsection \<open>C8: the comma-joined path segment\<close>

text \<open>
  C8. For every non-empty list of coin identifiers, each operation of the price family
  (current prices, historical prices, price chart, percentage change, first prices; both
  forms) ends its URL with the identifiers joined by single commas in the caller's order.
  The request builder changes no character: when no identifier contains a comma, cutting
  the segment at its commas gives the caller's list back.
\<close>

theorem coins_comma_joined:
  assumes "coins \<noteq> []"
  shows "req_url (get_current_prices_request coins sw)
           = COINS_URL @ ''/prices/current/'' @ comma_joined coins
       \<and> req_url (get_current_prices_async_request coins sw)
           = COINS_URL @ ''/prices/current/'' @ comma_joined coins
       \<and> req_url (get_historical_prices_request ts coins sw)
           = COINS_URL @ ''/prices/historical/'' @ str_of_int ts @ ''/'' @ comma_joined coins
       \<and> req_url (get_historical_prices_async_request ts coins sw)
           = COINS_URL @ ''/prices/historical/'' @ str_of_int ts @ ''/'' @ comma_joined coins
       \<and> req_url (get_price_chart_request coins s e n p w)
           = COINS_URL @ ''/chart/'' @ comma_joined coins
       \<and> req_url (get_price_chart_async_request coins s e n p w)
           = COINS_URL @ ''/chart/'' @ comma_joined coins
       \<and> req_url (get_price_percentage_change_request coins t lf pd)
           = COINS_URL @ ''/percentage/'' @ comma_joined coins
       \<and> req_url (get_price_percentage_change_async_request coins t lf pd)
           = COINS_URL @ ''/percentage/'' @ comma_joined coins
       \<and> req_url (get_first_prices_request coins)
           = COINS_URL @ ''/prices/first/'' @ comma_joined coins
       \<and> req_url (get_first_prices_async_request coins)
           = COINS_URL @ ''/prices/first/'' @ comma_joined coins
       \<and> ((\<forall>c\<in>set coins. CHR '','' \<notin> set c)
            \<longrightarrow> split_on CHR '','' (comma_joined coins) = coins)"
  using assms split_on_join [of coins "CHR '',''"]
  by (simp add: get_current_prices_request_def get_current_prices_async_request_def
      get_historical_prices_request_def get_historical_prices_async_request_def
      get_price_chart_request_def get_price_chart_async_request_def
      get_price_percentage_change_request_def get_price_percentage_change_async_request_def
      get_first_prices_request_def get_first_prices_async_request_def join_comma_joined)

text \<open>The theorem at the list \<^verbatim>\<open>["ethereum:0xabc", "coingecko:bitcoin"]\<close>.\<close>

theorem coins_comma_joined_witness:
  "req_url (get_current_prices_request [''ethereum:0xabc'', ''coingecko:bitcoin''] None)
     = ''https://coins.llama.fi/prices/current/ethereum:0xabc,coingecko:bitcoin''
   \<and> comma_joined [''ethereum:0xabc'', ''coingecko:bitcoin''] = ''ethereum:0xabc,coingecko:bitcoin''
   \<and> split_on CHR '','' ''ethereum:0xabc,coingecko:bitcoin''
     = [''ethereum:0xabc'', ''coingecko:bitcoin'']"
proof -
  have n: "[''ethereum:0xabc'', ''coingecko:bitcoin''] \<noteq> []" by simp
  show ?thesis
    using coins_comma_joined [OF n, of None]
    by (simp add: COINS_URL_def)
qed

subsection \<open>C9: an optional number given as 0\<close>

text \<open>
  C9. The operations test their optional parameters with \<^verbatim>\<open>if x:\<close>. A numeric
  parameter given as 0 (\<^verbatim>\<open>start\<close>, \<^verbatim>\<open>end\<close>, \<^verbatim>\<open>span\<close> of the price chart,
  \<^verbatim>\<open>timestamp\<close> of the percentage change, \<^verbatim>\<open>stablecoin\<close> of the stablecoin charts)
  is left out: the request is the very request built without the parameter, and its query
  string does not have the key.
\<close>

theorem zero_param_omitted:
  "get_price_chart_request coins (Some 0) e n p w = get_price_chart_request coins None e n p w
 \<and> get_price_chart_request coins s (Some 0) n p w = get_price_chart_request coins s None n p w
 \<and> get_price_chart_request coins s e (Some 0) p w = get_price_chart_request coins s e None p w
 \<and> get_price_chart_async_request coins (Some 0) e n p w
      = get_price_chart_async_request coins None e n p w
 \<and> get_price_chart_async_request coins s (Some 0) n p w
      = get_price_chart_async_request coins s None n p w
 \<and> get_price_chart_async_request coins s e (Some 0) p w
      = get_price_chart_async_request coins s e None p w
 \<and> get_price_percentage_change_request coins (Some 0) lf pd
      = get_price_percentage_change_request coins None lf pd
 \<and> get_price_percentage_change_async_request coins (Some 0) lf pd
      = get_price_percentage_change_async_request coins None lf pd
 \<and> get_stablecoin_charts_request chain (Some 0) = get_stablecoin_charts_request chain None
 \<and> get_stablecoin_charts_async_request chain (Some 0)
      = get_stablecoin_charts_async_request chain None
 \<and> ''start'' \<notin> set (param_keys (get_price_chart_request coins (Some 0) e n p w))
 \<and> ''end'' \<notin> set (param_keys (get_price_chart_request coins s (Some 0) n p w))
 \<and> ''span'' \<notin> set (param_keys (get_price_chart_request coins s e (Some 0) p w))
 \<and> ''timestamp'' \<notin> set (param_keys (get_price_percentage_change_request coins (Some 0) lf pd))
 \<and> ''stablecoin'' \<notin> set (param_keys (get_stablecoin_charts_request chain (Some 0)))"
proof -
  have chart_keys:
    "''start'' \<notin> set (param_keys (get_price_chart_request coins (Some 0) e n p w))"
    "''end'' \<notin> set (param_keys (get_price_chart_request coins s (Some 0) n p w))"
    "''span'' \<notin> set (param_keys (get_price_chart_request coins s e (Some 0) p w))"
    by (simp_all add: param_keys_price_chart split: option.splits)
  have other_keys:
    "''timestamp'' \<notin> set (param_keys (get_price_percentage_change_request coins (Some 0) lf pd))"
    "''stablecoin'' \<notin> set (param_keys (get_stablecoin_charts_request chain (Some 0)))"
    by (simp_all add: param_keys_def get_price_percentage_change_request_def
        get_stablecoin_charts_request_def set_if_int_def)
  have eqs:
    "get_price_chart_request coins (Some 0) e n p w = get_price_chart_request coins None e n p w"
    "get_price_chart_request coins s (Some 0) n p w = get_price_chart_request coins s None n p w"
    "get_price_chart_request coins s e (Some 0) p w = get_price_chart_request coins s e None p w"
    "get_price_percentage_change_request coins (Some 0) lf pd
      = get_price_percentage_change_request coins None lf pd"
    "get_price_percentage_change_async_request coins (Some 0) lf pd
      = get_price_percentage_change_async_request coins None lf pd"
    "get_stablecoin_charts_request chain (Some 0) = get_stablecoin_charts_request chain None"
    "get_stablecoin_charts_async_request chain (Some 0)
      = get_stablecoin_charts_async_request chain None"
    by (simp_all add: get_price_chart_request_def
        get_price_percentage_change_request_def get_price_percentage_change_async_request_def
        get_stablecoin_charts_request_def get_stablecoin_charts_async_request_def set_if_int_zero)
  show ?thesis
    using chart_keys other_keys eqs by (simp add: get_price_chart_async_request_eq)
qed

subsection \<open>C10: the simplified TVL is not validated\<close>

lemma request_not_validation: "request L T rq \<noteq> Inl (ValidationError es)"
  by (simp add: request_def raise_for_status_def
      split: outcome.splits option.splits http_status_error.splits)

text \<open>
  C10. For a 2xx response with a JSON body, \<^verbatim>\<open>get_protocol_tvl\<close> and its asynchronous
  form return the parsed body as it is, whatever its shape, and they never fail with a
  validation error. The operations that validate reject a body that is a string, which
  \<^verbatim>\<open>get_protocol_tvl\<close> returns: the nearest block, the stablecoins and the pools are
  shown.
\<close>

theorem get_protocol_tvl_unvalidated:
  assumes "T (get_protocol_tvl_request slug) = Returns r"
    and "is_success r" and "body_json r = Some j"
  shows "get_protocol_tvl L T slug = Inr j
       \<and> get_protocol_tvl_async L T slug = Inr j
       \<and> (\<forall>T' es. get_protocol_tvl L T' slug \<noteq> Inl (ValidationError es)
                \<and> get_protocol_tvl_async L T' slug \<noteq> Inl (ValidationError es))
       \<and> (\<forall>s chain ts. j = JStr s \<longrightarrow>
             get_block L (\<lambda>rq. Returns r) chain ts = Inl (ValidationError [([], ''model_type'')])
           \<and> get_stablecoins L (\<lambda>rq. Returns r) ip = Inl (ValidationError [([], ''list_type'')])
           \<and> get_pools L (\<lambda>rq. Returns r) = Inl (ValidationError [([], ''list_type'')]))"
proof -
  have "request L T (get_protocol_tvl_request slug) = Inr j"
    using assms by (simp add: request_success)
  moreover have "\<And>rq. request L (\<lambda>rq. Returns r) rq = Inr j"
    using assms(2,3) by (simp add: request_success)
  ultimately show ?thesis
    by (simp add: get_protocol_tvl_def get_protocol_tvl_async_def async_request_eq
        request_not_validation get_block_def get_stablecoins_def get_pools_def
        Block_model_validate_def Block_fields_def Stablecoins_validate_python_def
        Pools_validate_python_def v_list_def raise_validation_def)
qed

text \<open>The theorem at a response whose body is the JSON string \<^verbatim>\<open>"n/a"\<close>.\<close>

theorem get_protocol_tvl_unvalidated_witness:
  "get_protocol_tvl sample_library (\<lambda>rq. Returns (ok_response (JStr ''n/a''))) ''uniswap''
     = Inr (JStr ''n/a'')
   \<and> get_protocol_tvl_async sample_library (\<lambda>rq. Returns (ok_response (JStr ''n/a''))) ''uniswap''
     = Inr (JStr ''n/a'')
   \<and> get_block sample_library (\<lambda>rq. Returns (ok_response (JStr ''n/a''))) ''bsc'' 1
     = Inl (ValidationError [([], ''model_type'')])"
proof -
  have ok: "is_success (ok_response (JStr ''n/a''))"
    by (simp add: is_success_def ok_response_def)
  have js: "body_json (ok_response (JStr ''n/a'')) = Some (JStr ''n/a'')"
    by (simp add: ok_response_def)
  show ?thesis
    using get_protocol_tvl_unvalidated [where T = "\<lambda>rq. Returns (ok_response (JStr ''n/a''))"
        and slug = "''uniswap''" and L = sample_library, OF refl ok js]
    by simp
qed

end
